theory Spec2Isabelle
  imports Main "HOL-Library.AList"
begin

section \<open>Strings and slices as Python has them\<close>

text \<open>
  A line is a Python \<open>str\<close>, modelled as a \<open>string\<close> whose characters stand for the
  code points below 256, so that \<open>length\<close> is \<open>len\<close>. \<open>str.strip()\<close> removes the
  characters for which \<open>str.isspace\<close> holds: tab to carriage return, the four
  separators 28 to 31, the blank, and the code points 133 and 160.
\<close>

definition isspace :: "char \<Rightarrow> bool" where
  "isspace c = (let n = (of_char c :: nat)
                in (9 \<le> n \<and> n \<le> 13) \<or> (28 \<le> n \<and> n \<le> 32) \<or> n = 133 \<or> n = 160)"

definition strip :: "string \<Rightarrow> string" where
  "strip s = rev (dropWhile isspace (rev (dropWhile isspace s)))"

text \<open>
  \<open>xs[start:stop]\<close>: a negative bound counts from the end, and both bounds are clamped
  to \<open>0 .. len\<close>; an empty or inverted range gives the empty list. It never raises.
\<close>

definition clamp_index :: "int \<Rightarrow> int \<Rightarrow> int" where
  "clamp_index n i = (if i < 0 then max 0 (i + n) else min i n)"

definition py_slice :: "'a list \<Rightarrow> int \<Rightarrow> int \<Rightarrow> 'a list" where
  "py_slice xs start stop =
     (let n = int (length xs); lo = clamp_index n start; hi = clamp_index n stop
      in take (nat (hi - lo)) (drop (nat lo) xs))"

definition startswith :: "string \<Rightarrow> string \<Rightarrow> bool" where
  "startswith s p = (take (length p) s = p)"

section \<open>The data model\<close>

text \<open>
  A row of the mapping table \<open>source_file_info\<close>, keyed by \<open>src_id\<close>: the metadata
  (schema) table and the destination table of a source key.
\<close>

record table_info =
  src_table :: string
  parsed_data :: string

type_synonym table_map = "string \<rightharpoonup> table_info"

text \<open>
  A row of a metadata table after \<open>pd.to_numeric(errors='coerce')\<close>: the start position
  and the length are whole numbers, or null (\<open>None\<close>) where the stored value is missing
  or not numeric.
\<close>

record column =
  db_element_name :: string
  start_pstn :: "int option"
  element_lgth :: "int option"
  data_type :: string

text \<open>
  A decoded record is a Python dict from field name to value. A dict keeps the order
  of first insertion and an assignment to a present key replaces its value in place,
  which is \<open>AList.update\<close> on an association list.
\<close>

type_synonym row = "(string \<times> string) list"

section \<open>Field extraction and classification\<close>

definition extract_field :: "string \<Rightarrow> int \<Rightarrow> int \<Rightarrow> string" where
  "extract_field line start_pos lgth = strip (py_slice line start_pos (start_pos + lgth))"

definition unknown_table :: table_info where
  "unknown_table = \<lparr>src_table = ''Unknown Table'', parsed_data = ''Unknown Table''\<rparr>"

definition source_key :: "string \<Rightarrow> string" where
  "source_key line = extract_field line 0 3 @ extract_field line 11 2"

definition identify_table :: "string \<Rightarrow> table_map \<Rightarrow> table_info" where
  "identify_table line table_map =
     (case table_map (source_key line) of
        Some info \<Rightarrow> info
      | None \<Rightarrow> unknown_table)"

text \<open>
  The loop of \<open>parse_line\<close> over the metadata rows, with the record built so far.
  Each \<open>continue\<close> of the source leaves the record as it is.
\<close>

fun parse_rows :: "string \<Rightarrow> column list \<Rightarrow> row \<Rightarrow> row" where
  "parse_rows line [] record = record"
| "parse_rows line (r # rows) record =
     (case start_pstn r of
        None \<Rightarrow> parse_rows line rows record
      | Some sp \<Rightarrow>
         (case element_lgth r of
            None \<Rightarrow> parse_rows line rows record
          | Some lg \<Rightarrow>
             (let start_pos = sp - 1; lgth = lg
              in if start_pos < 0 \<or> start_pos + lgth > int (length line)
                 then parse_rows line rows record
                 else parse_rows line rows
                        (AList.update (db_element_name r)
                           (extract_field line start_pos lgth) record))))"

definition parse_line :: "string \<Rightarrow> column list \<Rightarrow> row" where
  "parse_line line metadata = parse_rows line metadata []"

section \<open>The metadata cache and the decoding of one line\<close>

text \<open>
  The registry store answers a metadata query for a table with its rows, or the query
  raises (\<open>Inl\<close> the message). \<open>fetch_metadata_for_table\<close> catches every exception and
  returns an empty frame for it.
\<close>

type_synonym registry = "string \<Rightarrow> string + column list"

definition fetch_metadata_for_table :: "registry \<Rightarrow> string \<Rightarrow> column list" where
  "fetch_metadata_for_table engine table_name =
     (case engine table_name of
        Inr metadata \<Rightarrow> metadata
      | Inl e \<Rightarrow> [])"

text \<open>
  The state the decode tasks of one file share: the metadata cache, and the list of
  the metadata queries sent to the store so far.
\<close>

record decode_state =
  metadata_cache :: "string \<rightharpoonup> column list"
  fetched :: "string list"

type_synonym decoded = "string option \<times> row option \<times> string option"

definition process_line ::
  "string \<Rightarrow> table_map \<Rightarrow> decode_state \<Rightarrow> string \<Rightarrow> registry \<Rightarrow> decoded \<times> decode_state" where
  "process_line line table_map st instance_id engine =
     (let table_info = identify_table line table_map;
          metadata_table = src_table table_info;
          actual_data_table = parsed_data table_info
      in if metadata_table = ''Unknown Table'' \<or> actual_data_table = ''Unknown Table''
         then ((None, None, Some line), st)
         else
           (case metadata_cache st metadata_table of
              Some metadata \<Rightarrow>
                ((Some actual_data_table,
                  Some (AList.update ''instance_id'' instance_id (parse_line line metadata)),
                  None), st)
            | None \<Rightarrow>
                (let metadata = fetch_metadata_for_table engine metadata_table;
                     st1 = st\<lparr>fetched := fetched st @ [metadata_table]\<rparr>
                 in if metadata \<noteq> []
                    then ((Some actual_data_table,
                           Some (AList.update ''instance_id'' instance_id
                                   (parse_line line metadata)),
                           None),
                          st1\<lparr>metadata_cache := (metadata_cache st1)(metadata_table \<mapsto> metadata)\<rparr>)
                    else ((None, None, Some line), st1))))"

section \<open>Base names\<close>

text \<open>
  \<open>os.path.splitext(name)[0]\<close> for a name without a directory separator, which is
  what \<open>os.path.basename\<close> and \<open>os.listdir\<close> give: the name is cut at its last dot,
  unless only dots stand before that dot.
\<close>

fun rfind :: "char \<Rightarrow> string \<Rightarrow> nat option" where
  "rfind c [] = None"
| "rfind c (x # xs) =
     (case rfind c xs of
        Some i \<Rightarrow> Some (Suc i)
      | None \<Rightarrow> (if x = c then Some 0 else None))"

definition splitext_root :: "string \<Rightarrow> string" where
  "splitext_root p =
     (case rfind CHR ''.'' p of
        None \<Rightarrow> p
      | Some dotIndex \<Rightarrow>
          (if list_ex (\<lambda>c. c \<noteq> CHR ''.'') (take dotIndex p) then take dotIndex p else p))"

definition strip_prefix :: "string \<Rightarrow> string \<Rightarrow> string" where
  "strip_prefix base prefix = (if startswith base prefix then drop (length prefix) base else base)"

definition normalize_base_name :: "string \<Rightarrow> string" where
  "normalize_base_name file_name =
     foldl strip_prefix (splitext_root file_name) [''NO_MATCHING_METADATA_'', ''FAILED_INSERT_'']"

section \<open>Decoding the lines of a file\<close>

text \<open>
  One decode task per line. The list of lines is taken in the order in which the
  tasks complete, each task running \<open>process_line\<close> in one piece on the shared state;
  \<open>future.result()\<close> is the task's return value (\<open>Inr\<close>) or the exception it raised
  (\<open>Inl\<close> its message), and \<open>futures[future]\<close> is the line the task was given.
\<close>

type_synonym outcome = "(string + decoded) \<times> string"

fun run_tasks ::
  "string list \<Rightarrow> table_map \<Rightarrow> decode_state \<Rightarrow> string \<Rightarrow> registry
     \<Rightarrow> outcome list \<times> decode_state" where
  "run_tasks [] table_map st instance_id engine = ([], st)"
| "run_tasks (line # lines) table_map st instance_id engine =
     (case process_line line table_map st instance_id engine of
        (r, st1) \<Rightarrow>
          (case run_tasks lines table_map st1 instance_id engine of
             (rs, st2) \<Rightarrow> ((Inr r, line) # rs, st2)))"

text \<open>
  \<open>parsed_data_per_table.setdefault(t, []).append(r)\<close> on a dict kept in insertion order.
\<close>

definition setdefault_append ::
  "string \<Rightarrow> row \<Rightarrow> (string \<times> row list) list \<Rightarrow> (string \<times> row list) list" where
  "setdefault_append t r per_table =
     AList.update t ((case map_of per_table t of None \<Rightarrow> [] | Some rs \<Rightarrow> rs) @ [r]) per_table"

type_synonym buckets = "(string \<times> row list) list \<times> string list"

text \<open>
  The body of the loop over the completed futures. A string, and a dict, is true in
  a condition when it is neither \<open>None\<close> nor empty.
\<close>

fun collect :: "outcome \<Rightarrow> buckets \<Rightarrow> buckets" where
  "collect (Inl e, line) (per_table, not_inserted) = (per_table, not_inserted @ [line])"
| "collect (Inr (Some actual_data_table, Some parsed_record, original_line), line)
       (per_table, not_inserted) =
     (if actual_data_table \<noteq> [] \<and> parsed_record \<noteq> []
      then (setdefault_append actual_data_table parsed_record per_table, not_inserted)
      else (case original_line of
              None \<Rightarrow> (per_table, not_inserted)
            | Some l \<Rightarrow> if l \<noteq> [] then (per_table, not_inserted @ [l])
                        else (per_table, not_inserted)))"
| "collect (Inr (actual_data_table, parsed_record, original_line), line)
       (per_table, not_inserted) =
     (case original_line of
        None \<Rightarrow> (per_table, not_inserted)
      | Some l \<Rightarrow> if l \<noteq> [] then (per_table, not_inserted @ [l])
                  else (per_table, not_inserted))"

fun collect_results :: "outcome list \<Rightarrow> buckets \<Rightarrow> buckets" where
  "collect_results [] b = b"
| "collect_results (f # fs) b = collect_results fs (collect f b)"

text \<open>
  The decode phase of \<open>process_file\<close>: the tasks run on a fresh cache, and their
  results are collected into the per-table batches and the lines not inserted.
\<close>

definition decode_lines :: "string list \<Rightarrow> table_map \<Rightarrow> string \<Rightarrow> registry \<Rightarrow> buckets" where
  "decode_lines lines table_map instance_id engine =
     collect_results
       (fst (run_tasks lines table_map
               \<lparr>metadata_cache = Map.empty, fetched = []\<rparr> instance_id engine))
       ([], [])"

section \<open>The store and its transaction\<close>

text \<open>
  The relational store is outside the program. Its contents have an arbitrary type
  \<open>'s\<close>; a connection holds what is persisted, the working copy of the open
  transaction if there is one, and the number of transactions begun on it. The bulk
  insert of a batch into a table is a parameter: it gives the working copy with the
  batch inserted, or raises (\<open>Inl\<close> the message) and leaves the working copy alone.
  Commit makes the working copy the persisted contents, rollback drops it.
\<close>

record 's conn =
  persisted :: 's
  working :: "'s option"
  begun :: nat

type_synonym 's bulk_insert = "string \<Rightarrow> row list \<Rightarrow> 's \<Rightarrow> string + 's"

definition conn_begin :: "'s conn \<Rightarrow> 's conn" where
  "conn_begin c = c\<lparr>working := Some (persisted c), begun := Suc (begun c)\<rparr>"

definition trans_commit :: "'s conn \<Rightarrow> 's conn" where
  "trans_commit c =
     (case working c of
        Some w \<Rightarrow> c\<lparr>persisted := w, working := None\<rparr>
      | None \<Rightarrow> c)"

definition trans_rollback :: "'s conn \<Rightarrow> 's conn" where
  "trans_rollback c = c\<lparr>working := None\<rparr>"

definition insert_parsed_data ::
  "'s bulk_insert \<Rightarrow> 's conn \<Rightarrow> row list \<Rightarrow> string \<Rightarrow> string + 's conn" where
  "insert_parsed_data ins c records actual_table_name =
     (case ins actual_table_name records
             (case working c of Some w \<Rightarrow> w | None \<Rightarrow> persisted c) of
        Inl e \<Rightarrow> Inl e
      | Inr w' \<Rightarrow> Inr (c\<lparr>working := Some w'\<rparr>))"

text \<open>
  The loop over \<open>parsed_data_per_table.items()\<close>: it stops at the first insert that
  raises, with the connection as it is then.
\<close>

fun insert_all ::
  "'s bulk_insert \<Rightarrow> 's conn \<Rightarrow> (string \<times> row list) list \<Rightarrow> string option \<times> 's conn" where
  "insert_all ins c [] = (None, c)"
| "insert_all ins c ((actual_table_name, records) # rest) =
     (case insert_parsed_data ins c records actual_table_name of
        Inl e \<Rightarrow> (Some e, c)
      | Inr c' \<Rightarrow> insert_all ins c' rest)"

section \<open>Processing one file\<close>

text \<open>
  The diagnostic files are written beside the source file; the directory is a map
  from file name to the strings written to the file. A failed record is a pair of
  \<open>None\<close> and the error detail.
\<close>

type_synonym directory = "string \<rightharpoonup> string list"

type_synonym failed_record = "string option \<times> string"

definition newline :: string where
  "newline = [CHR 0x0A]"

text \<open>The handler of the outer \<open>except\<close> of \<open>process_file\<close>.\<close>

definition on_exception ::
  "string \<Rightarrow> failed_record list \<Rightarrow> string list \<Rightarrow> string \<Rightarrow> directory
     \<Rightarrow> failed_record list \<times> directory" where
  "on_exception base_file_name failed_records not_inserted_records e dir =
     (let failed_records1 = failed_records @ [(None, e)];
          dir1 = (if not_inserted_records \<noteq> []
                  then dir(''NO_MATCHING_METADATA_'' @ base_file_name @ ''.txt''
                             \<mapsto> map (\<lambda>record. record @ newline) not_inserted_records)
                  else dir);
          dir2 = dir1(''FAILED_INSERT_'' @ base_file_name @ ''.txt''
                        \<mapsto> map (\<lambda>(record, error_detail).
                                   ''ERROR - Bulk insert failed: '' @ error_detail @ newline)
                              failed_records1)
      in (failed_records1, dir2))"

text \<open>
  \<open>process_file\<close>. The file's content is the list of its lines as the iteration over
  the file gives them, or opening or reading the file raises (\<open>Inl\<close> the message). The
  result is the list of failed records, the directory and the connection afterwards.
\<close>

definition process_file ::
  "string \<Rightarrow> string + string list \<Rightarrow> registry \<Rightarrow> 's bulk_insert \<Rightarrow> table_map
     \<Rightarrow> directory \<Rightarrow> 's conn \<Rightarrow> failed_record list \<times> directory \<times> 's conn" where
  "process_file file_name content engine ins table_map dir c =
     (let base_file_name = normalize_base_name file_name;
          instance_id = base_file_name
      in case content of
           Inl e \<Rightarrow>
             (case on_exception base_file_name [] [] e dir of
                (failed_records, dir') \<Rightarrow> (failed_records, dir', c))
         | Inr lines \<Rightarrow>
             (case decode_lines lines table_map instance_id engine of
                (parsed_data_per_table, not_inserted_records) \<Rightarrow>
                  if not_inserted_records \<noteq> []
                  then (case on_exception base_file_name [] not_inserted_records
                               ''Metadata mismatch or parsing errors detected'' dir of
                          (failed_records, dir') \<Rightarrow> (failed_records, dir', c))
                  else (case insert_all ins (conn_begin c) parsed_data_per_table of
                          (None, c') \<Rightarrow> ([], dir, trans_commit c')
                        | (Some e, c') \<Rightarrow> ([(None, e)], dir, trans_rollback c'))))"

section \<open>Notions of the specification\<close>

text \<open>
  A column definition is usable on a line when its start position and its length
  are both present and its two bounds pass the decoder's tests: \<open>startPosition - 1\<close>
  is not before position 0 and \<open>startPosition - 1 + length\<close> is not beyond the
  line's length.
\<close>

definition usable :: "string \<Rightarrow> column \<Rightarrow> bool" where
  "usable line c =
     (case start_pstn c of
        None \<Rightarrow> False
      | Some sp \<Rightarrow>
          (case element_lgth c of
             None \<Rightarrow> False
           | Some lg \<Rightarrow> 0 \<le> sp - 1 \<and> sp - 1 + lg \<le> int (length line)))"

text \<open>The value a usable column definition selects from a line.\<close>

definition field_value :: "string \<Rightarrow> column \<Rightarrow> string" where
  "field_value line c =
     extract_field line (the (start_pstn c) - 1) (the (element_lgth c))"

text \<open>The fields of the usable column definitions, in metadata order.\<close>

definition decoded_fields :: "string \<Rightarrow> column list \<Rightarrow> row" where
  "decoded_fields line metadata =
     map (\<lambda>c. (db_element_name c, field_value line c)) (filter (usable line) metadata)"

text \<open>
  The scenario of the specification: the metadata of \<open>ABC_META\<close>, the store that
  holds it, and the line.
\<close>

definition abc_meta :: "column list" where
  "abc_meta =
     [\<lparr>db_element_name = ''code'', start_pstn = Some 1, element_lgth = Some 3,
       data_type = ''varchar''\<rparr>,
      \<lparr>db_element_name = ''amt'', start_pstn = Some 10, element_lgth = Some 5,
       data_type = ''varchar''\<rparr>]"

definition abc_engine :: registry where
  "abc_engine t = (if t = ''ABC_META'' then Inr abc_meta else Inl ''no such table'')"

definition abc_info :: table_info where
  "abc_info = \<lparr>src_table = ''ABC_META'', parsed_data = ''abc_data''\<rparr>"

definition abc_line :: string where
  "abc_line = ''ABC01    12345''"


definition fresh :: decode_state where
  "fresh = \<lparr>metadata_cache = Map.empty, fetched = []\<rparr>"

text \<open>
  A second line and table for the examples: the line \<open>XYZ02    67890\<close> has the
  source key \<open>XYZ89\<close>. The store of the examples is the list of the batches
  inserted; one bulk insert accepts every batch, the other raises on \<open>xyz_data\<close>.
\<close>

definition xyz_line :: string where
  "xyz_line = ''XYZ02    67890''"

definition xyz_info :: table_info where
  "xyz_info = \<lparr>src_table = ''XYZ_META'', parsed_data = ''xyz_data''\<rparr>"

definition two_map :: table_map where
  "two_map = [''ABC34'' \<mapsto> abc_info, ''XYZ89'' \<mapsto> xyz_info]"

definition two_engine :: registry where
  "two_engine t =
     (if t = ''ABC_META'' then Inr abc_meta
      else if t = ''XYZ_META'' then Inr abc_meta
      else Inl ''no such table'')"

definition empty_engine :: registry where
  "empty_engine t = Inr []"

definition accepting :: "(string \<times> row list) list bulk_insert" where
  "accepting t rows w = Inr (w @ [(t, rows)])"

definition rejecting_xyz :: "(string \<times> row list) list bulk_insert" where
  "rejecting_xyz t rows w =
     (if t = ''xyz_data'' then Inl ''Table xyz_data does not exist'' else Inr (w @ [(t, rows)]))"

definition conn0 :: "(string \<times> row list) list conn" where
  "conn0 = \<lparr>persisted = [], working = None, begun = 0\<rparr>"

text \<open>
  Two files for the examples: one whose two lines both decode, to two tables, and
  one with a line of an unknown source key after a line that decodes.
\<close>

definition good_lines :: "string list" where
  "good_lines = [abc_line @ newline, xyz_line @ newline]"

definition mixed_lines :: "string list" where
  "mixed_lines = [abc_line @ newline, ''ZZZ99    00000'' @ newline]"

definition abc_batch :: "string \<times> row list" where
  "abc_batch =
     (''abc_data'', [[(''code'', ''ABC''), (''amt'', ''12345''), (''instance_id'', ''X'')]])"

definition xyz_batch :: "string \<times> row list" where
  "xyz_batch =
     (''xyz_data'', [[(''code'', ''XYZ''), (''amt'', ''67890''), (''instance_id'', ''X'')]])"

text \<open>
  A metadata table with two column definitions of negative length, one starting
  within the scenario line and one starting far beyond its end, and the store that
  holds it. A file name that carries both diagnostic prefixes, \<open>FAILED_INSERT_\<close>
  first.
\<close>

definition stray_meta :: "column list" where
  "stray_meta =
     [\<lparr>db_element_name = ''x'', start_pstn = Some 3, element_lgth = Some (- 5),
       data_type = ''varchar''\<rparr>,
      \<lparr>db_element_name = ''y'', start_pstn = Some 100, element_lgth = Some (- 200),
       data_type = ''varchar''\<rparr>]"

definition stray_engine :: registry where
  "stray_engine t = (if t = ''ABC_META'' then Inr stray_meta else Inl ''no such table'')"

definition nested_name :: string where
  "nested_name = ''FAILED_INSERT_NO_MATCHING_METADATA_X.txt''"

section \<open>Slices and the source key\<close>

lemma py_slice_forward:
  assumes "0 \<le> a" and "0 \<le> l"
  shows "py_slice xs a (a + l) = take (nat l) (drop (nat a) xs)"
proof (cases "a < int (length xs)")
  case True
  with assms show ?thesis
    by (auto simp: py_slice_def clamp_index_def Let_def min_def)
next
  case False
  with assms show ?thesis
    by (auto simp: py_slice_def clamp_index_def Let_def min_def)
qed

lemma source_key_eq:
  "source_key line = strip (take 3 line) @ strip (take 2 (drop 11 line))"
  using py_slice_forward [of 0 3 line] py_slice_forward [of 11 2 line]
  by (simp add: source_key_def extract_field_def)

lemma identify_table_unknown:
  "table_map (source_key line) = None \<Longrightarrow> identify_table line table_map = unknown_table"
  by (simp add: identify_table_def)

lemma abc_key: "source_key abc_line = ''ABC34''"
  by (simp add: abc_line_def source_key_eq strip_def isspace_def)

text \<open>
  C4. The source key of a line is defined for every string, whatever its length: it
  is the stripped first three characters followed by the stripped characters at
  positions 11 and 12, the slices being cut short on a short line. When the key is
  not in the mapping, \<open>process_line\<close> returns no destination table and no record,
  hands the original line back as not inserted, and leaves the cache alone without
  any metadata query.
\<close>

theorem unresolvable_key_not_inserted:
  assumes "table_map (source_key line) = None"
  shows "source_key line = strip (take 3 line) @ strip (take 2 (drop 11 line)) \<and>
         process_line line table_map st instance_id engine = ((None, None, Some line), st)"
  using assms
  by (simp add: source_key_eq process_line_def identify_table_unknown unknown_table_def)

theorem unresolvable_key_not_inserted_witness:
  "[''ABC01'' \<mapsto> abc_info] (source_key abc_line) = None \<and>
   process_line abc_line [''ABC01'' \<mapsto> abc_info] fresh ''RUN1'' abc_engine
     = ((None, None, Some abc_line), fresh)"
proof -
  have k: "[''ABC01'' \<mapsto> abc_info] (source_key abc_line) = None"
    by (simp add: abc_key)
  from unresolvable_key_not_inserted
         [where table_map = "[''ABC01'' \<mapsto> abc_info]" and line = abc_line and st = fresh
            and instance_id = "''RUN1''" and engine = abc_engine, OF k] k
  show ?thesis
    by blast
qed



section \<open>The decoded record\<close>

lemma parse_rows_step:
  "parse_rows line (r # rows) acc =
     (if usable line r
      then parse_rows line rows (AList.update (db_element_name r) (field_value line r) acc)
      else parse_rows line rows acc)"
  by (auto simp: usable_def field_value_def Let_def split: option.splits)

lemma map_upd_add_shift: "m(k \<mapsto> v) ++ n = m ++ ([k \<mapsto> v] ++ n)"
  by (rule ext) (simp add: map_add_def split: option.splits)

lemma map_of_parse_rows:
  "map_of (parse_rows line metadata acc) =
     map_of acc ++ map_of (rev (decoded_fields line metadata))"
proof (induction metadata arbitrary: acc)
  case Nil
  show ?case by (simp add: decoded_fields_def)
next
  case (Cons r rows)
  show ?case
  proof (cases "usable line r")
    case True
    have "map_of (parse_rows line (r # rows) acc) =
            map_of (AList.update (db_element_name r) (field_value line r) acc)
              ++ map_of (rev (decoded_fields line rows))"
      using True Cons.IH by (simp only: parse_rows_step if_True)
    also have "\<dots> = map_of acc
              ++ ([db_element_name r \<mapsto> field_value line r] ++ map_of (rev (decoded_fields line rows)))"
      by (simp only: update_conv') (rule map_upd_add_shift)
    also have "[db_element_name r \<mapsto> field_value line r] ++ map_of (rev (decoded_fields line rows))
                 = map_of (rev (decoded_fields line (r # rows)))"
      using True by (simp add: decoded_fields_def)
    finally show ?thesis .
  next
    case False
    then show ?thesis using Cons.IH
      by (simp only: parse_rows_step if_False) (simp add: decoded_fields_def)
  qed
qed

lemma map_of_parse_line:
  "map_of (parse_line line metadata) = map_of (rev (decoded_fields line metadata))"
  by (simp add: parse_line_def map_of_parse_rows)

lemma fst_decoded_fields:
  "fst ` set (decoded_fields line metadata) = db_element_name ` {c \<in> set metadata. usable line c}"
  by (auto simp: decoded_fields_def image_iff)

lemma dom_parse_line:
  "fst ` set (parse_line line metadata) = db_element_name ` {c \<in> set metadata. usable line c}"
proof -
  have "fst ` set (parse_line line metadata) = dom (map_of (parse_line line metadata))"
    by (simp add: dom_map_of_conv_image_fst)
  also have "\<dots> = fst ` set (rev (decoded_fields line metadata))"
    by (simp only: map_of_parse_line dom_map_of_conv_image_fst)
  finally show ?thesis by (simp add: fst_decoded_fields)
qed

lemma process_line_resolved:
  assumes "table_map (source_key line) = Some info"
    and "src_table info \<noteq> ''Unknown Table''"
    and "parsed_data info \<noteq> ''Unknown Table''"
    and "metadata_cache st (src_table info) = Some metadata \<or>
         (metadata_cache st (src_table info) = None \<and>
          fetch_metadata_for_table engine (src_table info) = metadata \<and> metadata \<noteq> [])"
  shows "fst (process_line line table_map st instance_id engine) =
           (Some (parsed_data info),
            Some (AList.update ''instance_id'' instance_id (parse_line line metadata)), None)"
  using assms by (auto simp: process_line_def identify_table_def Let_def)

text \<open>
  What \<open>process_line\<close> returns when the source key of a line resolves and the
  metadata of its table is obtained, from the cache or by a fetch that returns
  rows: the destination table and a record whose field names are those of the
  usable column definitions together with \<open>instance_id\<close>, each field holding the
  value its last usable definition selects.
\<close>

lemma decoded_record_fields:
  assumes "table_map (source_key line) = Some info"
    and "src_table info \<noteq> ''Unknown Table''"
    and "parsed_data info \<noteq> ''Unknown Table''"
    and "metadata_cache st (src_table info) = Some metadata \<or>
         (metadata_cache st (src_table info) = None \<and>
          fetch_metadata_for_table engine (src_table info) = metadata \<and> metadata \<noteq> [])"
  shows "\<exists>r. fst (process_line line table_map st instance_id engine) =
               (Some (parsed_data info), Some r, None) \<and>
             fst ` set r =
               db_element_name ` {c \<in> set metadata. usable line c} \<union> {''instance_id''} \<and>
             map_of r =
               (map_of (rev (decoded_fields line metadata)))(''instance_id'' \<mapsto> instance_id)"
proof -
  let ?r = "AList.update ''instance_id'' instance_id (parse_line line metadata)"
  have "fst (process_line line table_map st instance_id engine) =
          (Some (parsed_data info), Some ?r, None)"
    using assms by (rule process_line_resolved)
  moreover have "fst ` set ?r =
      db_element_name ` {c \<in> set metadata. usable line c} \<union> {''instance_id''}"
    using dom_update [of "''instance_id''" instance_id "parse_line line metadata"]
    by (simp only: dom_map_of_conv_image_fst dom_parse_line) auto
  moreover have "map_of ?r =
      (map_of (rev (decoded_fields line metadata)))(''instance_id'' \<mapsto> instance_id)"
    by (simp only: update_conv' map_of_parse_line)
  ultimately show ?thesis by blast
qed






text \<open>
  C3 fails on the code. The decoder tests a column's two bounds only against the
  line, not against each other, so a column of negative length can pass. On the
  14-character scenario line the column \<open>x\<close> (start 3, length -5) ends before
  position 0 and the column \<open>y\<close> (start 100, length -200) starts beyond the end
  of the line; both ranges fall outside the line, and both fields are present in
  the record: \<open>x\<close> with the Python slice \<open>line[2:-3]\<close>, nine characters of the
  line, and \<open>y\<close> with the empty string.
\<close>

theorem negative_length_field_present:
  "length abc_line = 14 \<and>
   fst (process_line abc_line [''ABC34'' \<mapsto> abc_info] fresh ''RUN1'' stray_engine)
     = (Some ''abc_data'',
        Some [(''x'', ''C01    12''), (''y'', ''''), (''instance_id'', ''RUN1'')], None)"
  by code_simp

section \<open>Base name normalization\<close>

text \<open>
  C5 fails on the code. \<open>normalize_base_name\<close> tries each prefix once,
  \<open>NO_MATCHING_METADATA_\<close> first, so of the name
  \<open>FAILED_INSERT_NO_MATCHING_METADATA_X.txt\<close> only the leading \<open>FAILED_INSERT_\<close> is
  removed and the base is \<open>NO_MATCHING_METADATA_X\<close>, not the \<open>X\<close> of \<open>X.txt\<close>; with
  the two prefixes in the other order the base is \<open>X\<close>. Processing a file of that
  name with a line that cannot be decoded writes the diagnostic
  \<open>NO_MATCHING_METADATA_NO_MATCHING_METADATA_X.txt\<close>, a nested prefix, and writes
  the failed-insert diagnostic under the name of the file itself.
\<close>

theorem nested_prefix_kept:
  "normalize_base_name nested_name = ''NO_MATCHING_METADATA_X'' \<and>
   normalize_base_name ''NO_MATCHING_METADATA_FAILED_INSERT_X.txt'' = ''X'' \<and>
   normalize_base_name ''X.txt'' = ''X'' \<and>
   fst (snd (process_file nested_name (Inr mixed_lines) two_engine accepting two_map
               Map.empty conn0)) ''NO_MATCHING_METADATA_NO_MATCHING_METADATA_X.txt''
     = Some [''ZZZ99    00000'' @ newline @ newline] \<and>
   fst (snd (process_file nested_name (Inr mixed_lines) two_engine accepting two_map
               Map.empty conn0)) nested_name
     = Some [''ERROR - Bulk insert failed: Metadata mismatch or parsing errors detected''
               @ newline]"
  by code_simp

section \<open>The scenario\<close>

lemma parse_abc: "parse_line abc_line abc_meta = [(''code'', ''ABC''), (''amt'', ''12345'')]"
  by (simp add: parse_line_def abc_meta_def abc_line_def extract_field_def py_slice_def
        clamp_index_def strip_def isspace_def)

text \<open>
  C6, as stated, fails: the characters of the line \<open>ABC01    12345\<close> at positions
  11 and 12 are \<open>34\<close>, so its source key is \<open>ABC34\<close>. Under a mapping that knows
  only the key \<open>ABC01\<close> the line resolves to no table and is handed back as not
  inserted.
\<close>

theorem scenario_key_ABC01_counterexample:
  "source_key abc_line \<noteq> ''ABC01'' \<and>
   fst (process_line abc_line [''ABC01'' \<mapsto> abc_info] fresh ''RUN1'' abc_engine)
     = (None, None, Some abc_line) \<and>
   fst (process_line abc_line [''ABC01'' \<mapsto> abc_info] fresh ''RUN1'' abc_engine)
     \<noteq> (Some ''abc_data'',
         Some [(''code'', ''ABC''), (''amt'', ''12345''), (''instance_id'', ''RUN1'')], None)"
  by (simp add: process_line_def identify_table_def abc_key unknown_table_def)

text \<open>
  C6, amended. With the mapping entry under the key \<open>ABC34\<close>, the key of the line,
  the line resolves to \<open>abc_data\<close> and decodes to the record with \<open>code\<close> =
  \<open>ABC\<close>, \<open>amt\<close> = \<open>12345\<close> and the instance identifier.
\<close>

theorem scenario_decodes_under_key_ABC34:
  "source_key abc_line = ''ABC34'' \<and>
   fst (process_line abc_line [''ABC34'' \<mapsto> abc_info] fresh instance_id abc_engine)
     = (Some ''abc_data'',
        Some [(''code'', ''ABC''), (''amt'', ''12345''), (''instance_id'', instance_id)], None)"
proof -
  have f: "fetch_metadata_for_table abc_engine ''ABC_META'' = abc_meta"
    by (simp add: fetch_metadata_for_table_def abc_engine_def)
  have n: "abc_meta \<noteq> []"
    by (simp add: abc_meta_def)
  show ?thesis
    by (simp add: process_line_def identify_table_def abc_key abc_info_def fresh_def
          Let_def f n parse_abc)
qed

theorem scenario_decodes_under_key_ABC34_witness:
  "fst (process_line abc_line [''ABC34'' \<mapsto> abc_info] fresh ''RUN1'' abc_engine)
     = (Some ''abc_data'',
        Some [(''code'', ''ABC''), (''amt'', ''12345''), (''instance_id'', ''RUN1'')], None)"
  using scenario_decodes_under_key_ABC34 [where instance_id = "''RUN1''"] by blast



section \<open>The load of a file\<close>

lemma persisted_insert_parsed_data:
  "insert_parsed_data ins c rs t = Inr c' \<Longrightarrow> persisted c' = persisted c \<and> begun c' = begun c"
  by (auto simp: insert_parsed_data_def split: sum.splits)

lemma persisted_insert_all:
  "persisted (snd (insert_all ins c batches)) = persisted c \<and>
   begun (snd (insert_all ins c batches)) = begun c"
proof (induction batches arbitrary: c)
  case Nil
  show ?case by simp
next
  case (Cons b batches)
  obtain t rs where b: "b = (t, rs)" by (cases b)
  show ?case
  proof (cases "insert_parsed_data ins c rs t")
    case (Inl e)
    then show ?thesis by (simp add: b)
  next
    case (Inr c')
    with Cons.IH [of c'] persisted_insert_parsed_data [OF Inr] show ?thesis
      by (simp add: b)
  qed
qed

lemma insert_all_stops:
  assumes "insert_all ins c pre = (None, c1)"
    and "insert_parsed_data ins c1 rs t = Inl e"
  shows "insert_all ins c (pre @ (t, rs) # post) = (Some e, c1)"
  using assms
proof (induction pre arbitrary: c)
  case Nil
  then show ?case by simp
next
  case (Cons b pre)
  obtain t' rs' where b: "b = (t', rs')" by (cases b)
  show ?case
  proof (cases "insert_parsed_data ins c rs' t'")
    case (Inl e')
    with Cons.prems(1) show ?thesis by (simp add: b)
  next
    case (Inr c')
    with Cons.prems have "insert_all ins c' pre = (None, c1)" by (simp add: b)
    from Cons.IH [OF this Cons.prems(2)] Inr show ?thesis by (simp add: b)
  qed
qed

text \<open>
  C1. When the decode phase of a file leaves at least one line not inserted,
  \<open>process_file\<close> returns the connection as it received it: no transaction has
  been begun, nothing has been inserted and the persisted contents are the same,
  whatever batches were decoded for other tables.
\<close>

theorem all_or_nothing_gate:
  assumes "snd (decode_lines lines table_map (normalize_base_name file_name) engine) \<noteq> []"
  shows "snd (snd (process_file file_name (Inr lines) engine ins table_map dir c)) = c"
proof -
  obtain per_table not_inserted where
    d: "decode_lines lines table_map (normalize_base_name file_name) engine
          = (per_table, not_inserted)"
    by (cases "decode_lines lines table_map (normalize_base_name file_name) engine")
  with assms have "not_inserted \<noteq> []" by simp
  with d show ?thesis
    by (simp add: process_file_def Let_def split: prod.splits)
qed

text \<open>
  C2. When every line of a file decodes and, in the transaction, the bulk insert
  for some table raises after the inserts for the tables before it succeeded, the
  transaction is rolled back: the persisted contents of the store are those from
  before the file, no transaction stays open, and the file's failed records hold
  the error detail.
\<close>

theorem load_failure_rolls_back:
  assumes "decode_lines lines table_map (normalize_base_name file_name) engine
             = (pre @ (t, rs) # post, [])"
    and "insert_all ins (conn_begin c) pre = (None, c1)"
    and "insert_parsed_data ins c1 rs t = Inl e"
  shows "fst (process_file file_name (Inr lines) engine ins table_map dir c) = [(None, e)] \<and>
         persisted (snd (snd (process_file file_name (Inr lines) engine ins table_map dir c)))
           = persisted c \<and>
         working (snd (snd (process_file file_name (Inr lines) engine ins table_map dir c)))
           = None"
proof -
  have stop: "insert_all ins (conn_begin c) (pre @ (t, rs) # post) = (Some e, c1)"
    using assms(2,3) by (rule insert_all_stops)
  have "persisted c1 = persisted (conn_begin c)"
    using persisted_insert_all [of ins "conn_begin c" pre] assms(2) by simp
  then have keep: "persisted c1 = persisted c"
    by (simp add: conn_begin_def)
  have res: "process_file file_name (Inr lines) engine ins table_map dir c
          = ([(None, e)], dir, trans_rollback c1)"
    using assms(1) stop by (simp add: process_file_def Let_def)
  show ?thesis
    by (simp add: res trans_rollback_def keep)
qed


lemma base_X: "normalize_base_name ''X.txt'' = ''X''"
  by code_simp

lemma decode_good: "decode_lines good_lines two_map ''X'' two_engine = ([abc_batch, xyz_batch], [])"
  by code_simp

lemma decode_mixed:
  "decode_lines mixed_lines two_map ''X'' two_engine
     = ([abc_batch], [''ZZZ99    00000'' @ newline])"
  by code_simp

theorem all_or_nothing_gate_witness:
  "decode_lines mixed_lines two_map (normalize_base_name ''X.txt'') two_engine
     = ([abc_batch], [''ZZZ99    00000'' @ newline]) \<and>
   snd (snd (process_file ''X.txt'' (Inr mixed_lines) two_engine accepting two_map
               Map.empty conn0)) = conn0"
proof -
  have d: "decode_lines mixed_lines two_map (normalize_base_name ''X.txt'') two_engine
             = ([abc_batch], [''ZZZ99    00000'' @ newline])"
    by (simp only: base_X decode_mixed)
  then have "snd (decode_lines mixed_lines two_map (normalize_base_name ''X.txt'') two_engine)
               \<noteq> []"
    by simp
  from all_or_nothing_gate [OF this, where ins = accepting and dir = Map.empty and c = conn0] d
  show ?thesis by blast
qed

theorem load_failure_rolls_back_witness:
  "insert_all rejecting_xyz (conn_begin conn0) [abc_batch]
     = (None, \<lparr>persisted = [], working = Some [abc_batch], begun = 1\<rparr>) \<and>
   fst (process_file ''X.txt'' (Inr good_lines) two_engine rejecting_xyz two_map Map.empty conn0)
     = [(None, ''Table xyz_data does not exist'')] \<and>
   persisted (snd (snd (process_file ''X.txt'' (Inr good_lines) two_engine rejecting_xyz
                          two_map Map.empty conn0))) = [] \<and>
   working (snd (snd (process_file ''X.txt'' (Inr good_lines) two_engine rejecting_xyz
                        two_map Map.empty conn0))) = None"
proof -
  let ?c1 = "\<lparr>persisted = [], working = Some [abc_batch], begun = 1\<rparr>
               :: (string \<times> row list) list conn"
  have d: "decode_lines good_lines two_map (normalize_base_name ''X.txt'') two_engine
             = ([abc_batch] @ (fst xyz_batch, snd xyz_batch) # [], [])"
    by (simp add: base_X decode_good)
  have a: "insert_all rejecting_xyz (conn_begin conn0) [abc_batch] = (None, ?c1)"
    by (simp add: abc_batch_def insert_parsed_data_def rejecting_xyz_def conn_begin_def conn0_def)
  have b: "insert_parsed_data rejecting_xyz ?c1 (snd xyz_batch) (fst xyz_batch)
             = Inl ''Table xyz_data does not exist''"
    by (simp add: xyz_batch_def insert_parsed_data_def rejecting_xyz_def)
  from load_failure_rolls_back [OF d a b, where dir = Map.empty] a
  show ?thesis by (simp add: conn0_def)
qed

text \<open>
  C7 fails on the code. On a file whose two lines decode and whose second batch the
  store rejects, \<open>process_file\<close> returns the failed record of the bulk insert and
  leaves the directory as it was: the handler inside the transaction records the
  error and does not raise again, so the code that writes \<open>FAILED_INSERT_X.txt\<close>,
  with its line \<open>ERROR - Bulk insert failed\<close>, is not reached.
\<close>

theorem insert_failure_leaves_no_diagnostic:
  "process_file ''X.txt'' (Inr good_lines) two_engine rejecting_xyz two_map Map.empty conn0
     = ([(None, ''Table xyz_data does not exist'')], Map.empty, conn0\<lparr>begun := 1\<rparr>)"
  by (simp add: process_file_def base_X decode_good abc_batch_def xyz_batch_def
        insert_parsed_data_def rejecting_xyz_def conn_begin_def conn0_def trans_rollback_def)




section \<open>Collecting the results\<close>

lemma collect_prefix:
  "collect f (per_table, xs @ ni) =
     (fst (collect f (per_table, ni)), xs @ snd (collect f (per_table, ni)))"
  by (cases "(f, (per_table, ni))" rule: collect.cases) (auto split: option.splits)

lemma collect_results_prefix:
  "collect_results fs (per_table, xs @ ni) =
     (fst (collect_results fs (per_table, ni)), xs @ snd (collect_results fs (per_table, ni)))"
proof (induction fs arbitrary: per_table ni)
  case Nil
  show ?case by simp
next
  case (Cons f fs)
  obtain pt1 ni1 where c: "collect f (per_table, ni) = (pt1, ni1)"
    by (cases "collect f (per_table, ni)")
  then have "collect f (per_table, xs @ ni) = (pt1, xs @ ni1)"
    using collect_prefix [of f per_table xs ni] by simp
  with c Cons.IH [of pt1 ni1] show ?case by simp
qed

lemma collect_results_append:
  "collect_results (fs @ gs) b = collect_results gs (collect_results fs b)"
  by (induction fs arbitrary: b) simp_all

text \<open>
  C9. In the loop over the completed futures, a task that raised adds its own line
  to the lines not inserted, at its place in the order of completion, and nothing
  else changes: the per-table batches and the other entries of the lines not
  inserted are those of the same run without that task, and the tasks after it are
  collected all the same.
\<close>

theorem raised_line_contained:
  "\<exists>per_table xs ys.
     collect_results (pre @ post) b = (per_table, xs @ ys) \<and>
     collect_results (pre @ (Inl e, line) # post) b = (per_table, xs @ line # ys)"
proof -
  obtain pt1 ni1 where p: "collect_results pre b = (pt1, ni1)"
    by (cases "collect_results pre b")
  let ?rest = "collect_results post (pt1, [])"
  have without: "collect_results (pre @ post) b = (fst ?rest, ni1 @ snd ?rest)"
    using collect_results_prefix [of post pt1 ni1 "[]"] by (simp add: collect_results_append p)
  have "collect_results (pre @ (Inl e, line) # post) b = collect_results post (pt1, ni1 @ [line])"
    by (simp add: collect_results_append p)
  also have "\<dots> = (fst ?rest, (ni1 @ [line]) @ snd ?rest)"
    using collect_results_prefix [of post pt1 "ni1 @ [line]" "[]"] by simp
  finally have "collect_results (pre @ (Inl e, line) # post) b = (fst ?rest, ni1 @ line # snd ?rest)"
    by simp
  with without show ?thesis by blast
qed

theorem raised_line_contained_witness:
  "collect_results
     [(Inr (Some ''abc_data'', Some [(''code'', ''ABC'')], None), ''l1''),
      (Inr (Some ''xyz_data'', Some [(''code'', ''XYZ'')], None), ''l3'')] ([], [])
     = ([(''abc_data'', [[(''code'', ''ABC'')]]), (''xyz_data'', [[(''code'', ''XYZ'')]])], []) \<and>
   collect_results
     [(Inr (Some ''abc_data'', Some [(''code'', ''ABC'')], None), ''l1''),
      (Inl ''OverflowError'', ''l2''),
      (Inr (Some ''xyz_data'', Some [(''code'', ''XYZ'')], None), ''l3'')] ([], [])
     = ([(''abc_data'', [[(''code'', ''ABC'')]]), (''xyz_data'', [[(''code'', ''XYZ'')]])], [''l2''])"
proof -
  let ?pre = "[(Inr (Some ''abc_data'', Some [(''code'', ''ABC'')], None), ''l1'')] :: outcome list"
  let ?post = "[(Inr (Some ''xyz_data'', Some [(''code'', ''XYZ'')], None), ''l3'')] :: outcome list"
  from raised_line_contained [of ?pre ?post "([], [])" "''OverflowError''" "''l2''"]
  obtain per_table xs ys where
    w: "collect_results (?pre @ ?post) ([], []) = (per_table, xs @ ys)"
    and r: "collect_results (?pre @ (Inl ''OverflowError'', ''l2'') # ?post) ([], [])
              = (per_table, xs @ ''l2'' # ys)"
    by blast
  have v: "collect_results (?pre @ ?post) ([], [])
            = ([(''abc_data'', [[(''code'', ''ABC'')]]), (''xyz_data'', [[(''code'', ''XYZ'')]])], [])"
    by (simp add: setdefault_append_def)
  with w have "per_table = [(''abc_data'', [[(''code'', ''ABC'')]]), (''xyz_data'', [[(''code'', ''XYZ'')]])]"
    and "xs = []" and "ys = []"
    by simp_all
  with r v show ?thesis by simp
qed

section \<open>Empty metadata\<close>

lemma process_line_fetched_irrelevant:
  "fst (process_line line table_map (st\<lparr>fetched := fs\<rparr>) instance_id engine)
     = fst (process_line line table_map st instance_id engine)"
  by (simp add: process_line_def Let_def split: option.splits)

text \<open>
  C8, as stated, fails: an empty metadata result is not cached. Two lines of the
  same table whose metadata is empty cause two metadata queries for that table,
  and the cache holds no entry for it afterwards.
\<close>

theorem empty_metadata_refetched_counterexample:
  "fetched (snd (run_tasks [abc_line, abc_line] two_map fresh ''X'' empty_engine))
     = [''ABC_META'', ''ABC_META''] \<and>
   metadata_cache (snd (run_tasks [abc_line, abc_line] two_map fresh ''X'' empty_engine))
     ''ABC_META'' = None"
  by code_simp

text \<open>
  C8, amended. When the metadata query for the resolved table of a line returns
  no rows, or raises, and the table is not in the cache, \<open>process_line\<close> hands the
  line back as not inserted after one metadata query, and the cache is left as it
  was, so the next line of that table queries the store again. The result of
  decoding any other line is the same as before.
\<close>

theorem empty_metadata_not_cached:
  assumes "table_map (source_key line) = Some info"
    and "src_table info \<noteq> ''Unknown Table''"
    and "parsed_data info \<noteq> ''Unknown Table''"
    and "metadata_cache st (src_table info) = None"
    and "engine (src_table info) = Inr [] \<or> engine (src_table info) = Inl e"
  shows "process_line line table_map st instance_id engine
           = ((None, None, Some line), st\<lparr>fetched := fetched st @ [src_table info]\<rparr>) \<and>
         fst (process_line other table_map
                (st\<lparr>fetched := fetched st @ [src_table info]\<rparr>) instance_id engine)
           = fst (process_line other table_map st instance_id engine)"
proof -
  have "fetch_metadata_for_table engine (src_table info) = []"
    using assms(5) by (auto simp: fetch_metadata_for_table_def)
  with assms(1-4) show ?thesis
    by (simp add: process_line_fetched_irrelevant)
       (simp add: process_line_def identify_table_def Let_def)
qed

theorem empty_metadata_not_cached_witness:
  "process_line abc_line two_map fresh ''X'' empty_engine
     = ((None, None, Some abc_line), fresh\<lparr>fetched := [''ABC_META'']\<rparr>) \<and>
   process_line abc_line two_map (fresh\<lparr>fetched := [''ABC_META'']\<rparr>) ''X'' empty_engine
     = ((None, None, Some abc_line), fresh\<lparr>fetched := [''ABC_META'', ''ABC_META'']\<rparr>)"
proof -
  let ?st1 = "fresh\<lparr>fetched := [''ABC_META'']\<rparr>"
  have h1: "two_map (source_key abc_line) = Some abc_info"
    by (simp add: abc_key two_map_def)
  have h2: "src_table abc_info \<noteq> ''Unknown Table''"
    and h3: "parsed_data abc_info \<noteq> ''Unknown Table''"
    by (simp_all add: abc_info_def)
  have h4: "metadata_cache fresh (src_table abc_info) = None"
    and h4': "metadata_cache ?st1 (src_table abc_info) = None"
    by (simp_all add: fresh_def)
  have h5: "empty_engine (src_table abc_info) = Inr [] \<or>
            empty_engine (src_table abc_info) = Inl ''none''"
    by (simp add: empty_engine_def)
  note first = empty_metadata_not_cached
      [where table_map = two_map and line = abc_line and info = abc_info and st = fresh
         and engine = empty_engine and e = "''none''" and instance_id = "''X''"
         and other = abc_line, OF h1 h2 h3 h4 h5]
  note second = empty_metadata_not_cached
      [where table_map = two_map and line = abc_line and info = abc_info and st = ?st1
         and engine = empty_engine and e = "''none''" and instance_id = "''X''"
         and other = abc_line, OF h1 h2 h3 h4' h5]
  have "process_line abc_line two_map fresh ''X'' empty_engine
          = ((None, None, Some abc_line), fresh\<lparr>fetched := [''ABC_META'']\<rparr>)"
    using first [THEN conjunct1] by (simp add: fresh_def abc_info_def)
  moreover have "process_line abc_line two_map ?st1 ''X'' empty_engine
          = ((None, None, Some abc_line), fresh\<lparr>fetched := [''ABC_META'', ''ABC_META'']\<rparr>)"
    using second [THEN conjunct1] by (simp add: fresh_def abc_info_def)
  ultimately show ?thesis
    by (rule conjI)
qed

end
